theory Spec2Isabelle
  imports Main "HOL-Library.Word"
begin

unbundle bit_operations_syntax

section \<open>The decoder of \<^verbatim>\<open>src/debugger.py\<close>\<close>

subsection \<open>Data model\<close>

text \<open>
  The operand tuple of a \<^verbatim>\<open>DecodedInstr\<close> mixes mnemonic strings, integers, the
  booleans of the link flag and \<^verbatim>\<open>None\<close> (the absent second register of
  \<^verbatim>\<open>BLEZ\<close> and \<^verbatim>\<open>BGTZ\<close>). A tuple is a list of such values.
\<close>

datatype pyval = PStr string | PInt int | PBool bool | PNone

text \<open>
  The dataclass \<^verbatim>\<open>DecodedInstr\<close> has the two fields \<^verbatim>\<open>type\<close> and
  \<^verbatim>\<open>args\<close>. Equality of two records is equality of both fields, which is what
  the generated \<^verbatim>\<open>__eq__\<close> of the dataclass compares.
\<close>

record DecodedInstr =
  type :: string
  args :: "pyval list"

subsection \<open>\<^verbatim>\<open>decode_instruction\<close>\<close>

text \<open>
  \<^verbatim>\<open>word\<close> and \<^verbatim>\<open>pc\<close> are Python integers, which are unbounded: both are
  \<^typ>\<open>int\<close>. Python's \<^verbatim>\<open>>>\<close>, \<^verbatim>\<open><<\<close>, \<^verbatim>\<open>&\<close> and \<^verbatim>\<open>|\<close> on
  integers are \<^const>\<open>drop_bit\<close>, \<^const>\<open>push_bit\<close>, \<^verbatim>\<open>AND\<close> and \<^verbatim>\<open>OR\<close> on
  \<^typ>\<open>int\<close> (two's complement of unbounded width, shifting right rounds towards
  minus infinity). Every shift count of the source is a non-negative literal, and the source
  has no \<^verbatim>\<open>raise\<close>: the function has no error branch, every path is a
  \<^verbatim>\<open>return\<close>. The branches are kept in the order of the source.
\<close>

definition decode_instruction :: "int \<Rightarrow> int \<Rightarrow> DecodedInstr" where
  "decode_instruction word pc =
    (let op = drop_bit 26 word AND 0x3F in
     if op = 0 then
       (let rs = drop_bit 21 word AND 0x1F;
            rt = drop_bit 16 word AND 0x1F;
            rd = drop_bit 11 word AND 0x1F;
            shamt = drop_bit 6 word AND 0x1F;
            funct = word AND 0x3F in
        if funct = 0x20 \<or> funct = 0x21 then
          \<lparr>type = ''arith'', args = [PStr ''ADD'', PInt rd, PInt rs, PInt rt]\<rparr>
        else if funct = 0x22 \<or> funct = 0x23 then
          \<lparr>type = ''arith'', args = [PStr ''SUB'', PInt rd, PInt rs, PInt rt]\<rparr>
        else if funct = 0x24 then
          \<lparr>type = ''arith'', args = [PStr ''AND'', PInt rd, PInt rs, PInt rt]\<rparr>
        else if funct = 0x25 then
          \<lparr>type = ''arith'', args = [PStr ''OR'', PInt rd, PInt rs, PInt rt]\<rparr>
        else if funct = 0x26 then
          \<lparr>type = ''arith'', args = [PStr ''XOR'', PInt rd, PInt rs, PInt rt]\<rparr>
        else if funct = 0x27 then
          \<lparr>type = ''arith'', args = [PStr ''NOR'', PInt rd, PInt rs, PInt rt]\<rparr>
        else if funct = 0x2A then
          \<lparr>type = ''arith'', args = [PStr ''SLT'', PInt rd, PInt rs, PInt rt]\<rparr>
        else if funct = 0x2B then
          \<lparr>type = ''arith'', args = [PStr ''SLTU'', PInt rd, PInt rs, PInt rt]\<rparr>
        else if funct = 0x00 then
          (if rs = 0 \<and> rt = 0 \<and> rd = 0 \<and> shamt = 0 then
             \<lparr>type = ''nop'', args = []\<rparr>
           else
             \<lparr>type = ''shift'', args = [PStr ''SLL'', PInt rd, PInt rt, PInt shamt]\<rparr>)
        else if funct = 0x02 then
          \<lparr>type = ''shift'', args = [PStr ''SRL'', PInt rd, PInt rt, PInt shamt]\<rparr>
        else if funct = 0x03 then
          \<lparr>type = ''shift'', args = [PStr ''SRA'', PInt rd, PInt rt, PInt shamt]\<rparr>
        else if funct = 0x08 then
          \<lparr>type = ''jr'', args = [PInt rs]\<rparr>
        else if funct = 0x09 then
          \<lparr>type = ''jalr'', args = [PInt rd, PInt rs]\<rparr>
        else if funct = 0x10 then
          \<lparr>type = ''mfhi'', args = [PInt rd]\<rparr>
        else if funct = 0x12 then
          \<lparr>type = ''mflo'', args = [PInt rd]\<rparr>
        else if funct = 0x11 then
          \<lparr>type = ''mthi'', args = [PInt rs]\<rparr>
        else if funct = 0x13 then
          \<lparr>type = ''mtlo'', args = [PInt rs]\<rparr>
        else if funct = 0x18 then
          \<lparr>type = ''mult'', args = [PInt rs, PInt rt]\<rparr>
        else if funct = 0x19 then
          \<lparr>type = ''multu'', args = [PInt rs, PInt rt]\<rparr>
        else if funct = 0x1A then
          \<lparr>type = ''div'', args = [PInt rs, PInt rt]\<rparr>
        else if funct = 0x1B then
          \<lparr>type = ''divu'', args = [PInt rs, PInt rt]\<rparr>
        else
          \<lparr>type = ''unknown'',
           args = [PStr ''SPECIAL'', PInt funct, PInt rs, PInt rt, PInt rd, PInt shamt]\<rparr>)
     else if op = 0x02 \<or> op = 0x03 then
       (let target = word AND 0x03FFFFFF;
            target_addr = ((pc + 4) AND 0xF0000000) OR push_bit 2 target in
        if op = 0x02 then
          \<lparr>type = ''jump'', args = [PInt target_addr, PBool False]\<rparr>
        else
          \<lparr>type = ''jump'', args = [PInt target_addr, PBool True]\<rparr>)
     else
       (let rs = drop_bit 21 word AND 0x1F;
            rt = drop_bit 16 word AND 0x1F;
            imm = word AND 0xFFFF;
            imm_signed = (if imm < 0x8000 then imm else imm - 0x10000) in
        if op = 0x04 then
          (let target_addr = pc + 4 + push_bit 2 imm_signed in
           \<lparr>type = ''branch'', args = [PStr ''BEQ'', PInt rs, PInt rt, PInt target_addr]\<rparr>)
        else if op = 0x05 then
          (let target_addr = pc + 4 + push_bit 2 imm_signed in
           \<lparr>type = ''branch'', args = [PStr ''BNE'', PInt rs, PInt rt, PInt target_addr]\<rparr>)
        else if op = 0x06 then
          (let target_addr = pc + 4 + push_bit 2 imm_signed in
           \<lparr>type = ''branch'', args = [PStr ''BLEZ'', PInt rs, PNone, PInt target_addr]\<rparr>)
        else if op = 0x07 then
          (let target_addr = pc + 4 + push_bit 2 imm_signed in
           \<lparr>type = ''branch'', args = [PStr ''BGTZ'', PInt rs, PNone, PInt target_addr]\<rparr>)
        else if op = 0x08 \<or> op = 0x09 then
          \<lparr>type = ''imm'', args = [PStr ''ADD'', PInt rt, PInt rs, PInt imm_signed]\<rparr>
        else if op = 0x0A \<or> op = 0x0B then
          (let cmp_type = (if op = 0x0A then ''SLT'' else ''SLTU'') in
           \<lparr>type = ''imm'', args = [PStr cmp_type, PInt rt, PInt rs, PInt imm_signed]\<rparr>)
        else if op = 0x0C then
          \<lparr>type = ''imm'', args = [PStr ''AND'', PInt rt, PInt rs, PInt imm]\<rparr>
        else if op = 0x0D then
          \<lparr>type = ''imm'', args = [PStr ''OR'', PInt rt, PInt rs, PInt imm]\<rparr>
        else if op = 0x0E then
          \<lparr>type = ''imm'', args = [PStr ''XOR'', PInt rt, PInt rs, PInt imm]\<rparr>
        else if op = 0x0F then
          \<lparr>type = ''lui'', args = [PInt rt, PInt imm]\<rparr>
        else if op = 0x20 then
          \<lparr>type = ''load'', args = [PStr ''BYTE_S'', PInt rt, PInt rs, PInt imm_signed]\<rparr>
        else if op = 0x24 then
          \<lparr>type = ''load'', args = [PStr ''BYTE_U'', PInt rt, PInt rs, PInt imm_signed]\<rparr>
        else if op = 0x21 then
          \<lparr>type = ''load'', args = [PStr ''HALF_S'', PInt rt, PInt rs, PInt imm_signed]\<rparr>
        else if op = 0x25 then
          \<lparr>type = ''load'', args = [PStr ''HALF_U'', PInt rt, PInt rs, PInt imm_signed]\<rparr>
        else if op = 0x23 then
          \<lparr>type = ''load'', args = [PStr ''WORD'', PInt rt, PInt rs, PInt imm_signed]\<rparr>
        else if op = 0x28 then
          \<lparr>type = ''store'', args = [PStr ''BYTE'', PInt rt, PInt rs, PInt imm_signed]\<rparr>
        else if op = 0x29 then
          \<lparr>type = ''store'', args = [PStr ''HALF'', PInt rt, PInt rs, PInt imm_signed]\<rparr>
        else if op = 0x2B then
          \<lparr>type = ''store'', args = [PStr ''WORD'', PInt rt, PInt rs, PInt imm_signed]\<rparr>
        else
          \<lparr>type = ''unknown'',
           args = [PStr ''OP'', PInt op, PInt rs, PInt rt, PInt imm_signed]\<rparr>))"

subsection \<open>The bit fields of a word\<close>

text \<open>
  The local variables of \<^verbatim>\<open>decode_instruction\<close>, each as a function of the word, with
  the expression the source assigns to it. The theorems below are stated with them.
\<close>

definition op_of :: "int \<Rightarrow> int" where
  "op_of word = drop_bit 26 word AND 0x3F"

definition rs_of :: "int \<Rightarrow> int" where
  "rs_of word = drop_bit 21 word AND 0x1F"

definition rt_of :: "int \<Rightarrow> int" where
  "rt_of word = drop_bit 16 word AND 0x1F"

definition rd_of :: "int \<Rightarrow> int" where
  "rd_of word = drop_bit 11 word AND 0x1F"

definition shamt_of :: "int \<Rightarrow> int" where
  "shamt_of word = drop_bit 6 word AND 0x1F"

definition funct_of :: "int \<Rightarrow> int" where
  "funct_of word = word AND 0x3F"

definition imm_of :: "int \<Rightarrow> int" where
  "imm_of word = word AND 0xFFFF"

definition target_of :: "int \<Rightarrow> int" where
  "target_of word = word AND 0x03FFFFFF"

definition imm_signed_of :: "int \<Rightarrow> int" where
  "imm_signed_of word =
    (let imm = word AND 0xFFFF in if imm < 0x8000 then imm else imm - 0x10000)"

text \<open>
  The \<^verbatim>\<open>funct\<close> values the register-form chain compares against, and the primary
  opcodes the function compares against, in the order of the source.
\<close>

definition rtype_functs :: "int list" where
  "rtype_functs = [0x20, 0x21, 0x22, 0x23, 0x24, 0x25, 0x26, 0x27, 0x2A, 0x2B, 0x00, 0x02, 0x03,
     0x08, 0x09, 0x10, 0x12, 0x11, 0x13, 0x18, 0x19, 0x1A, 0x1B]"

definition primary_opcodes :: "int list" where
  "primary_opcodes = [0x00, 0x02, 0x03, 0x04, 0x05, 0x06, 0x07, 0x08, 0x09, 0x0A, 0x0B, 0x0C,
     0x0D, 0x0E, 0x0F, 0x20, 0x24, 0x21, 0x25, 0x23, 0x28, 0x29, 0x2B]"

definition load_store_opcodes :: "int list" where
  "load_store_opcodes = [0x20, 0x24, 0x21, 0x25, 0x23, 0x28, 0x29, 0x2B]"

subsection \<open>The specification's notions\<close>

text \<open>
  Sign extension as the glossary of the specification has it: widening a 16-bit two's
  complement value by replicating its sign bit, bit 15.
\<close>

definition sign_extend_16 :: "int \<Rightarrow> int" where
  "sign_extend_16 x = signed_take_bit 15 x"

text \<open>
  The payload shapes of the data model of the specification, one per category: registers
  are indices from 0 to 31, so is the shift amount; offsets are signed 16-bit values; the
  constant of an immediate-arithmetic payload is the signed or the zero-extended 16-bit
  immediate; an address is an integer; the diagnostic payload of the unrecognized category
  echoes the raw fields. The category names and the tags are the strings of the source.
\<close>

definition is_reg :: "pyval \<Rightarrow> bool" where
  "is_reg v = (case v of PInt r \<Rightarrow> 0 \<le> r \<and> r < 32 | _ \<Rightarrow> False)"

definition is_simm16 :: "pyval \<Rightarrow> bool" where
  "is_simm16 v = (case v of PInt i \<Rightarrow> - 0x8000 \<le> i \<and> i < 0x8000 | _ \<Rightarrow> False)"

definition is_uimm16 :: "pyval \<Rightarrow> bool" where
  "is_uimm16 v = (case v of PInt i \<Rightarrow> 0 \<le> i \<and> i < 0x10000 | _ \<Rightarrow> False)"

definition is_opcode :: "pyval \<Rightarrow> bool" where
  "is_opcode v = (case v of PInt i \<Rightarrow> 0 \<le> i \<and> i < 64 | _ \<Rightarrow> False)"

definition is_int :: "pyval \<Rightarrow> bool" where
  "is_int v = (case v of PInt i \<Rightarrow> True | _ \<Rightarrow> False)"

definition is_flag :: "pyval \<Rightarrow> bool" where
  "is_flag v = (case v of PBool b \<Rightarrow> True | _ \<Rightarrow> False)"

definition is_tag :: "string list \<Rightarrow> pyval \<Rightarrow> bool" where
  "is_tag ms v = (case v of PStr s \<Rightarrow> s \<in> set ms | _ \<Rightarrow> False)"

definition has_shape :: "(pyval \<Rightarrow> bool) list \<Rightarrow> pyval list \<Rightarrow> bool" where
  "has_shape ps a = list_all2 (\<lambda>p v. p v) ps a"

definition well_formed :: "DecodedInstr \<Rightarrow> bool" where
  "well_formed d =
    (let t = type d; a = args d in
     if t = ''arith'' then
       has_shape [is_tag [''ADD'', ''SUB'', ''AND'', ''OR'', ''XOR'', ''NOR'', ''SLT'', ''SLTU''],
                  is_reg, is_reg, is_reg] a
     else if t = ''imm'' then
       has_shape [is_tag [''ADD'', ''SLT'', ''SLTU''], is_reg, is_reg, is_simm16] a \<or>
       has_shape [is_tag [''AND'', ''OR'', ''XOR''], is_reg, is_reg, is_uimm16] a
     else if t = ''shift'' then
       has_shape [is_tag [''SLL'', ''SRL'', ''SRA''], is_reg, is_reg, is_reg] a
     else if t = ''load'' then
       has_shape [is_tag [''BYTE_S'', ''BYTE_U'', ''HALF_S'', ''HALF_U'', ''WORD''],
                  is_reg, is_reg, is_simm16] a
     else if t = ''store'' then
       has_shape [is_tag [''BYTE'', ''HALF'', ''WORD''], is_reg, is_reg, is_simm16] a
     else if t = ''branch'' then
       has_shape [is_tag [''BEQ'', ''BNE''], is_reg, is_reg, is_int] a \<or>
       has_shape [is_tag [''BLEZ'', ''BGTZ''], is_reg, (\<lambda>v. v = PNone), is_int] a
     else if t = ''jump'' then has_shape [is_int, is_flag] a
     else if t = ''jr'' then has_shape [is_reg] a
     else if t = ''jalr'' then has_shape [is_reg, is_reg] a
     else if t = ''mfhi'' \<or> t = ''mflo'' \<or> t = ''mthi'' \<or> t = ''mtlo'' then
       has_shape [is_reg] a
     else if t = ''mult'' \<or> t = ''multu'' \<or> t = ''div'' \<or> t = ''divu'' then
       has_shape [is_reg, is_reg] a
     else if t = ''lui'' then has_shape [is_reg, is_uimm16] a
     else if t = ''nop'' then a = []
     else if t = ''unknown'' then
       has_shape [is_tag [''SPECIAL''], is_opcode, is_reg, is_reg, is_reg, is_reg] a \<or>
       has_shape [is_tag [''OP''], is_opcode, is_reg, is_reg, is_simm16] a
     else False)"

section \<open>Properties of the fields\<close>

lemmas field_defs = op_of_def rs_of_def rt_of_def rd_of_def shamt_of_def funct_of_def
  imm_of_def target_of_def

lemmas shape_defs = is_reg_def is_simm16_def is_uimm16_def is_opcode_def is_int_def
  is_flag_def is_tag_def has_shape_def

text \<open>Masking after shifting selects the bit ranges the specification lists.\<close>

lemma op_of_bits: "op_of w = take_bit 6 (drop_bit 26 w)"
  by (simp add: op_of_def take_bit_eq_mask mask_eq_exp_minus_1)

lemma rs_of_bits: "rs_of w = take_bit 5 (drop_bit 21 w)"
  by (simp add: rs_of_def take_bit_eq_mask mask_eq_exp_minus_1)

lemma rt_of_bits: "rt_of w = take_bit 5 (drop_bit 16 w)"
  by (simp add: rt_of_def take_bit_eq_mask mask_eq_exp_minus_1)

lemma rd_of_bits: "rd_of w = take_bit 5 (drop_bit 11 w)"
  by (simp add: rd_of_def take_bit_eq_mask mask_eq_exp_minus_1)

lemma shamt_of_bits: "shamt_of w = take_bit 5 (drop_bit 6 w)"
  by (simp add: shamt_of_def take_bit_eq_mask mask_eq_exp_minus_1)

lemma funct_of_bits: "funct_of w = take_bit 6 w"
  by (simp add: funct_of_def take_bit_eq_mask mask_eq_exp_minus_1)

lemma imm_of_bits: "imm_of w = take_bit 16 w"
  by (simp add: imm_of_def take_bit_eq_mask mask_eq_exp_minus_1)

lemma target_of_bits: "target_of w = take_bit 26 w"
  by (simp add: target_of_def take_bit_eq_mask mask_eq_exp_minus_1)

lemma imm_of_bounds: "0 \<le> imm_of w \<and> imm_of w < 0x10000"
proof -
  have "imm_of w \<le> 0xFFFF"
    unfolding imm_of_def by (rule AND_upper2) simp
  moreover have "0 \<le> imm_of w"
    by (simp add: imm_of_def)
  ultimately show ?thesis by simp
qed

lemma imm_lower: "- 0x8000 \<le> w AND (0xFFFF::int)"
proof -
  have "(0::int) \<le> w AND 0xFFFF" by simp
  then show ?thesis by linarith
qed

subsection \<open>Sign extension\<close>

lemma bit_15_iff:
  fixes x :: int
  assumes "0 \<le> x" and "x < 0x10000"
  shows "bit x 15 \<longleftrightarrow> 0x8000 \<le> x"
proof (cases "x < 0x8000")
  case True
  with assms have "x div 2 ^ 15 = 0"
    by (simp add: div_pos_pos_trivial)
  with True show ?thesis
    by (simp add: bit_iff_odd)
next
  case False
  with assms have "x = (x - 0x8000) + 1 * 0x8000" and "0 \<le> x - 0x8000"
    and "x - 0x8000 < 0x8000"
    by simp_all
  then have "x div 0x8000 = 1"
    by (metis add.right_neutral div_mult_self2 div_pos_pos_trivial mult.commute
        zero_neq_numeral)
  with False show ?thesis
    by (simp add: bit_iff_odd)
qed

lemma sign_extend_16_eq:
  assumes "0 \<le> x" and "x < 0x10000"
  shows "sign_extend_16 x = (if x < 0x8000 then x else x - 0x10000)"
proof (cases "x < 0x8000")
  case True
  with assms show ?thesis
    by (simp add: sign_extend_16_def signed_take_bit_eq_take_bit_shift take_bit_eq_mod)
next
  case False
  have shifted: "x + 0x8000 = (x - 0x8000) + 1 * 0x10000"
    by simp
  have "(x + 0x8000) mod 0x10000 = (x - 0x8000) mod 0x10000"
    by (subst shifted) (rule mod_mult_self1)
  also from False assms have "\<dots> = x - 0x8000"
    by simp
  finally show ?thesis using False
    by (simp add: sign_extend_16_def signed_take_bit_eq_take_bit_shift take_bit_eq_mod)
qed

text \<open>The source's \<^verbatim>\<open>imm_signed\<close> is the sign extension of the immediate field.\<close>

lemma imm_signed_of_eq: "imm_signed_of w = sign_extend_16 (imm_of w)"
  using imm_of_bounds [of w] sign_extend_16_eq [of "imm_of w"]
  by (simp add: imm_signed_of_def imm_of_def Let_def)

lemma sign_extend_16_bit:
  "sign_extend_16 (imm_of w) = (if bit (imm_of w) 15 then imm_of w - 0x10000 else imm_of w)"
  using imm_of_bounds [of w] sign_extend_16_eq [of "imm_of w"] bit_15_iff [of "imm_of w"]
  by auto

section \<open>The decoder, class by class\<close>

text \<open>
  \<^const>\<open>well_formed\<close> at a record, so that the category of a result is compared once the
  branch of the decoder is known.
\<close>

lemma well_formed_record:
  "well_formed \<lparr>type = t, args = a\<rparr> =
    (if t = ''arith'' then
       has_shape [is_tag [''ADD'', ''SUB'', ''AND'', ''OR'', ''XOR'', ''NOR'', ''SLT'', ''SLTU''],
                  is_reg, is_reg, is_reg] a
     else if t = ''imm'' then
       has_shape [is_tag [''ADD'', ''SLT'', ''SLTU''], is_reg, is_reg, is_simm16] a \<or>
       has_shape [is_tag [''AND'', ''OR'', ''XOR''], is_reg, is_reg, is_uimm16] a
     else if t = ''shift'' then
       has_shape [is_tag [''SLL'', ''SRL'', ''SRA''], is_reg, is_reg, is_reg] a
     else if t = ''load'' then
       has_shape [is_tag [''BYTE_S'', ''BYTE_U'', ''HALF_S'', ''HALF_U'', ''WORD''],
                  is_reg, is_reg, is_simm16] a
     else if t = ''store'' then
       has_shape [is_tag [''BYTE'', ''HALF'', ''WORD''], is_reg, is_reg, is_simm16] a
     else if t = ''branch'' then
       has_shape [is_tag [''BEQ'', ''BNE''], is_reg, is_reg, is_int] a \<or>
       has_shape [is_tag [''BLEZ'', ''BGTZ''], is_reg, (\<lambda>v. v = PNone), is_int] a
     else if t = ''jump'' then has_shape [is_int, is_flag] a
     else if t = ''jr'' then has_shape [is_reg] a
     else if t = ''jalr'' then has_shape [is_reg, is_reg] a
     else if t = ''mfhi'' \<or> t = ''mflo'' \<or> t = ''mthi'' \<or> t = ''mtlo'' then
       has_shape [is_reg] a
     else if t = ''mult'' \<or> t = ''multu'' \<or> t = ''div'' \<or> t = ''divu'' then
       has_shape [is_reg, is_reg] a
     else if t = ''lui'' then has_shape [is_reg, is_uimm16] a
     else if t = ''nop'' then a = []
     else if t = ''unknown'' then
       has_shape [is_tag [''SPECIAL''], is_opcode, is_reg, is_reg, is_reg, is_reg] a \<or>
       has_shape [is_tag [''OP''], is_opcode, is_reg, is_reg, is_simm16] a
     else False)"
  by (simp add: well_formed_def)

lemma well_formed_rtype:
  "op_of w = 0 \<Longrightarrow> well_formed (decode_instruction w pc)"
  by (simp add: decode_instruction_def Let_def op_of_def well_formed_record shape_defs)

lemma well_formed_jtype:
  "op_of w = 2 \<or> op_of w = 3 \<Longrightarrow> well_formed (decode_instruction w pc)"
  by (auto simp add: decode_instruction_def Let_def op_of_def well_formed_record shape_defs)

lemma well_formed_itype:
  "op_of w \<noteq> 0 \<Longrightarrow> op_of w \<noteq> 2 \<Longrightarrow> op_of w \<noteq> 3 \<Longrightarrow>
    well_formed (decode_instruction w pc)"
  by (simp add: decode_instruction_def Let_def op_of_def well_formed_record shape_defs
      imm_lower)

lemma decode_unknown_funct:
  "op_of w = 0 \<Longrightarrow> funct_of w \<notin> set rtype_functs \<Longrightarrow>
    decode_instruction w pc =
      \<lparr>type = ''unknown'',
       args = [PStr ''SPECIAL'', PInt (funct_of w), PInt (rs_of w), PInt (rt_of w),
               PInt (rd_of w), PInt (shamt_of w)]\<rparr>"
  by (simp add: decode_instruction_def Let_def field_defs rtype_functs_def)

lemma decode_unknown_op:
  "op_of w \<notin> set primary_opcodes \<Longrightarrow>
    decode_instruction w pc =
      \<lparr>type = ''unknown'',
       args = [PStr ''OP'', PInt (op_of w), PInt (rs_of w), PInt (rt_of w),
               PInt (imm_signed_of w)]\<rparr>"
  by (simp add: decode_instruction_def Let_def field_defs imm_signed_of_def
      primary_opcodes_def)

lemma decode_known_funct:
  "op_of w = 0 \<Longrightarrow> funct_of w \<in> set rtype_functs \<Longrightarrow>
    type (decode_instruction w pc) \<noteq> ''unknown''"
  by (auto simp add: decode_instruction_def Let_def field_defs rtype_functs_def)

lemma decode_known_op:
  "op_of w \<noteq> 0 \<Longrightarrow> op_of w \<in> set primary_opcodes \<Longrightarrow>
    type (decode_instruction w pc) \<noteq> ''unknown''"
  by (auto simp add: decode_instruction_def Let_def field_defs primary_opcodes_def)

lemma decode_jump:
  "op_of w = 0x02 \<or> op_of w = 0x03 \<Longrightarrow>
    decode_instruction w pc =
      \<lparr>type = ''jump'',
       args = [PInt (((pc + 4) AND 0xF0000000) OR push_bit 2 (target_of w)),
               PBool (op_of w = 0x03)]\<rparr>"
  by (elim disjE) (simp_all add: decode_instruction_def Let_def field_defs)

lemma decode_branch:
  "op_of w = 0x04 \<or> op_of w = 0x05 \<or> op_of w = 0x06 \<or> op_of w = 0x07 \<Longrightarrow>
    decode_instruction w pc =
      \<lparr>type = ''branch'',
       args = [PStr (if op_of w = 0x04 then ''BEQ'' else if op_of w = 0x05 then ''BNE''
                     else if op_of w = 0x06 then ''BLEZ'' else ''BGTZ''),
               PInt (rs_of w),
               (if op_of w = 0x04 \<or> op_of w = 0x05 then PInt (rt_of w) else PNone),
               PInt (pc + 4 + push_bit 2 (imm_signed_of w))]\<rparr>"
  by (elim disjE) (simp_all add: decode_instruction_def Let_def field_defs imm_signed_of_def)

lemma decode_sltiu:
  "op_of w = 0x0B \<Longrightarrow>
    decode_instruction w pc =
      \<lparr>type = ''imm'',
       args = [PStr ''SLTU'', PInt (rt_of w), PInt (rs_of w), PInt (imm_signed_of w)]\<rparr>"
  by (simp add: decode_instruction_def Let_def field_defs imm_signed_of_def)

lemma decode_load_store:
  "op_of w \<in> set load_store_opcodes \<Longrightarrow>
    decode_instruction w pc =
      \<lparr>type = (if op_of w = 0x28 \<or> op_of w = 0x29 \<or> op_of w = 0x2B then ''store''
               else ''load''),
       args = [PStr (if op_of w = 0x20 then ''BYTE_S'' else if op_of w = 0x24 then ''BYTE_U''
                     else if op_of w = 0x21 then ''HALF_S''
                     else if op_of w = 0x25 then ''HALF_U''
                     else if op_of w = 0x23 then ''WORD''
                     else if op_of w = 0x28 then ''BYTE''
                     else if op_of w = 0x29 then ''HALF'' else ''WORD''),
               PInt (rt_of w), PInt (rs_of w), PInt (imm_signed_of w)]\<rparr>"
proof -
  assume "op_of w \<in> set load_store_opcodes"
  then have "op_of w = 0x20 \<or> op_of w = 0x24 \<or> op_of w = 0x21 \<or> op_of w = 0x25 \<or>
      op_of w = 0x23 \<or> op_of w = 0x28 \<or> op_of w = 0x29 \<or> op_of w = 0x2B"
    by (simp add: load_store_opcodes_def)
  then show ?thesis
    by (elim disjE) (simp_all add: decode_instruction_def Let_def field_defs imm_signed_of_def)
qed

lemma decode_store_tag:
  "type (decode_instruction w pc) = ''store'' \<Longrightarrow>
    hd (args (decode_instruction w pc)) \<in> {PStr ''BYTE'', PStr ''HALF'', PStr ''WORD''}"
proof -
  define P :: "DecodedInstr \<Rightarrow> bool"
    where "P d \<longleftrightarrow> type d \<noteq> ''store'' \<or>
      hd (args d) \<in> {PStr ''BYTE'', PStr ''HALF'', PStr ''WORD''}" for d
  have P_record: "P \<lparr>type = t, args = a\<rparr> \<longleftrightarrow>
    t \<noteq> ''store'' \<or> hd a \<in> {PStr ''BYTE'', PStr ''HALF'', PStr ''WORD''}" for t a
    by (simp add: P_def)
  have "P (decode_instruction w pc)"
    by (simp add: decode_instruction_def Let_def P_record)
  moreover assume "type (decode_instruction w pc) = ''store''"
  ultimately show ?thesis
    by (simp add: P_def)
qed

lemma jump_addr_bounds:
  "0 \<le> ((pc + 4) AND 0xF0000000) OR push_bit 2 (target_of w) \<and>
   ((pc + 4) AND 0xF0000000) OR push_bit 2 (target_of w) < (2 ^ 32 :: int)"
proof -
  let ?seg = "(pc + 4) AND (0xF0000000 :: int)"
  let ?off = "push_bit 2 (target_of w) :: int"
  have "?seg = take_bit 32 ?seg"
    by (simp add: take_bit_eq_mask mask_eq_exp_minus_1 and.assoc)
  moreover have "?off = take_bit 32 ?off"
    by (simp add: target_of_bits push_bit_take_bit)
  ultimately have "?seg OR ?off = take_bit 32 (?seg OR ?off)"
    by (metis take_bit_or)
  then show ?thesis
    by (metis take_bit_nonnegative take_bit_int_less_exp)
qed

lemma jump_target_in_range:
  "op_of w = 0x02 \<or> op_of w = 0x03 \<Longrightarrow>
    \<exists>t l. args (decode_instruction w pc) = [PInt t, PBool l] \<and> 0 \<le> t \<and> t < 2 ^ 32"
  using jump_addr_bounds [of pc w] by (simp add: decode_jump)

text \<open>An integer outside the 32-bit range is not its own residue modulo \<open>2 ^ 32\<close>.\<close>

lemma outside_range_not_residue:
  fixes t :: int
  assumes "t < 0 \<or> 2 ^ 32 \<le> t"
  shows "t \<noteq> t mod 2 ^ 32"
proof
  assume "t = t mod 2 ^ 32"
  moreover have "0 \<le> t mod 2 ^ 32" and "t mod 2 ^ 32 < 2 ^ 32"
    by simp_all
  ultimately have "0 \<le> t" and "t < 2 ^ 32"
    by simp_all
  with assms show False
    by simp
qed

section \<open>The claims\<close>

text \<open>
  Every theorem below holds for all integers \<open>w\<close> and \<open>pc\<close>, the 32-bit words and
  addresses among them: no theorem needs the bound.
\<close>

subsection \<open>C1: the decoder is total and falls back to the unrecognized category\<close>

text \<open>
  Claim C1. For every word \<open>w\<close> and every address \<open>pc\<close>, \<open>decode_instruction w pc\<close> is a
  Decoded Instruction of one of the categories of the data model, with the payload shape of
  its category; no path of the function raises. Its category is \<^verbatim>\<open>unknown\<close> exactly
  when the word is of register form with a \<^verbatim>\<open>funct\<close> outside the known ones, or its
  primary opcode is outside the known ones, and the result then carries the raw fields.
\<close>

theorem decode_total:
  "well_formed (decode_instruction w pc) \<and>
   (type (decode_instruction w pc) = ''unknown'' \<longleftrightarrow>
      (op_of w = 0 \<and> funct_of w \<notin> set rtype_functs) \<or> op_of w \<notin> set primary_opcodes) \<and>
   (op_of w = 0 \<and> funct_of w \<notin> set rtype_functs \<longrightarrow>
      decode_instruction w pc =
        \<lparr>type = ''unknown'',
         args = [PStr ''SPECIAL'', PInt (funct_of w), PInt (rs_of w), PInt (rt_of w),
                 PInt (rd_of w), PInt (shamt_of w)]\<rparr>) \<and>
   (op_of w \<notin> set primary_opcodes \<longrightarrow>
      decode_instruction w pc =
        \<lparr>type = ''unknown'',
         args = [PStr ''OP'', PInt (op_of w), PInt (rs_of w), PInt (rt_of w),
                 PInt (imm_signed_of w)]\<rparr>)"
proof (intro conjI impI)
  show "well_formed (decode_instruction w pc)"
    using well_formed_rtype [of w pc] well_formed_jtype [of w pc] well_formed_itype [of w pc]
    by blast
next
  have zero_known: "(0::int) \<in> set primary_opcodes"
    by (simp add: primary_opcodes_def)
  show "type (decode_instruction w pc) = ''unknown'' \<longleftrightarrow>
      (op_of w = 0 \<and> funct_of w \<notin> set rtype_functs) \<or> op_of w \<notin> set primary_opcodes"
  proof
    assume unknown: "type (decode_instruction w pc) = ''unknown''"
    show "(op_of w = 0 \<and> funct_of w \<notin> set rtype_functs) \<or> op_of w \<notin> set primary_opcodes"
    proof (cases "op_of w = 0")
      case True
      with unknown decode_known_funct [of w pc] show ?thesis by blast
    next
      case False
      with unknown decode_known_op [of w pc] show ?thesis by blast
    qed
  next
    assume "(op_of w = 0 \<and> funct_of w \<notin> set rtype_functs) \<or> op_of w \<notin> set primary_opcodes"
    then show "type (decode_instruction w pc) = ''unknown''"
    proof
      assume "op_of w = 0 \<and> funct_of w \<notin> set rtype_functs"
      then show ?thesis by (simp add: decode_unknown_funct)
    next
      assume "op_of w \<notin> set primary_opcodes"
      then show ?thesis by (simp add: decode_unknown_op)
    qed
  qed
next
  assume "op_of w = 0 \<and> funct_of w \<notin> set rtype_functs"
  then show "decode_instruction w pc =
      \<lparr>type = ''unknown'',
       args = [PStr ''SPECIAL'', PInt (funct_of w), PInt (rs_of w), PInt (rt_of w),
               PInt (rd_of w), PInt (shamt_of w)]\<rparr>"
    by (simp add: decode_unknown_funct)
next
  assume "op_of w \<notin> set primary_opcodes"
  then show "decode_instruction w pc =
      \<lparr>type = ''unknown'',
       args = [PStr ''OP'', PInt (op_of w), PInt (rs_of w), PInt (rt_of w),
               PInt (imm_signed_of w)]\<rparr>"
    by (rule decode_unknown_op)
qed

text \<open>
  At the register-form word \<open>0x0000003F\<close> (reserved \<^verbatim>\<open>funct\<close> 63), at the word
  \<open>0xFC220004\<close> (reserved opcode 63) and at \<open>0x00221820\<close> (an \<^verbatim>\<open>ADD\<close>).
\<close>

theorem decode_total_witness:
  "op_of 0x0000003F = 0 \<and> funct_of 0x0000003F \<notin> set rtype_functs \<and>
   decode_instruction 0x0000003F 0 =
     \<lparr>type = ''unknown'',
      args = [PStr ''SPECIAL'', PInt 63, PInt 0, PInt 0, PInt 0, PInt 0]\<rparr> \<and>
   op_of 0xFC220004 \<notin> set primary_opcodes \<and>
   decode_instruction 0xFC220004 0 =
     \<lparr>type = ''unknown'', args = [PStr ''OP'', PInt 63, PInt 1, PInt 2, PInt 4]\<rparr> \<and>
   well_formed (decode_instruction 0x00221820 0x1000)"
  using decode_total [of "0x0000003F" 0] decode_total [of "0xFC220004" 0]
    decode_total [of "0x00221820" "0x1000"]
  by (simp add: field_defs imm_signed_of_def rtype_functs_def primary_opcodes_def)

subsection \<open>C2: the jump target\<close>

text \<open>
  Claim C2. For every word whose primary opcode (bits 31 to 26) is \<open>0x02\<close> or \<open>0x03\<close> and
  every \<open>pc\<close>, the result is a jump whose target address is
  \<open>((pc + 4) AND 0xF0000000) OR (t << 2)\<close>, with \<open>t\<close> the 26-bit target field (bits 25 to
  0) of the word, and whose link flag is set exactly when the opcode is \<open>0x03\<close>.
\<close>

theorem jump_target_addr:
  "op_of w = 0x02 \<or> op_of w = 0x03 \<Longrightarrow>
    decode_instruction w pc =
      \<lparr>type = ''jump'',
       args = [PInt (((pc + 4) AND 0xF0000000) OR push_bit 2 (target_of w)),
               PBool (op_of w = 0x03)]\<rparr> \<and>
    op_of w = take_bit 6 (drop_bit 26 w) \<and> target_of w = take_bit 26 w"
  by (simp add: decode_jump flip: op_of_bits target_of_bits)

theorem jump_target_addr_witness:
  "op_of 0x0C000010 = 0x03 \<and>
   decode_instruction 0x0C000010 0x1000 = \<lparr>type = ''jump'', args = [PInt 0x40, PBool True]\<rparr>"
  using jump_target_addr [of "0x0C000010" "0x1000"]
  by (simp add: op_of_def target_of_def)

subsection \<open>C3: the segment of a jump at the end of a segment\<close>

text \<open>
  Claim C3, as amended. Decoding a jump-type word whose 26-bit target field is \<open>0x0000010\<close>
  at \<open>pc = 0x0FFFFFFC\<close> yields a jump whose target address is \<open>0x10000040\<close>: the next
  instruction is at \<open>0x10000000\<close>, whose top four bits are \<open>0x1\<close>.
\<close>

theorem jump_segment_example:
  "op_of w = 0x02 \<or> op_of w = 0x03 \<Longrightarrow> target_of w = 0x0000010 \<Longrightarrow>
    decode_instruction w 0x0FFFFFFC =
      \<lparr>type = ''jump'', args = [PInt 0x10000040, PBool (op_of w = 0x03)]\<rparr>"
  by (elim disjE) (simp_all add: decode_instruction_def Let_def field_defs)

theorem jump_segment_example_witness:
  "op_of 0x08000010 = 0x02 \<and> target_of 0x08000010 = 0x0000010 \<and>
   decode_instruction 0x08000010 0x0FFFFFFC =
     \<lparr>type = ''jump'', args = [PInt 0x10000040, PBool False]\<rparr>"
  using jump_segment_example [of "0x08000010"]
  by (simp add: op_of_def target_of_def)

text \<open>
  Claim C3 as the specification states it, with the target address \<open>0x00000040\<close>, fails at
  the word \<open>0x08000010\<close> (\<^verbatim>\<open>J\<close> with target field \<open>0x10\<close>).
\<close>

theorem jump_segment_example_refuted:
  "hd (args (decode_instruction 0x08000010 0x0FFFFFFC)) \<noteq> PInt 0x00000040"
  by (simp add: decode_instruction_def)

subsection \<open>C4: the branch target\<close>

text \<open>
  Claim C4. For every word whose primary opcode is \<open>0x04\<close>, \<open>0x05\<close>, \<open>0x06\<close> or \<open>0x07\<close> and
  every \<open>pc\<close>, the result is a branch whose target address is
  \<open>pc + 4 + (sign_extend_16 immediate << 2)\<close>, the immediate being bits 15 to 0 of the word.
  The word \<open>0x10220004\<close> is \<^verbatim>\<open>BEQ\<close> with \<open>rs = 1\<close>, \<open>rt = 2\<close>, \<open>imm = 4\<close>; decoded at
  \<open>pc = 0x1000\<close> its target is \<open>0x1014\<close>.
\<close>

theorem branch_target_addr:
  "(op_of w = 0x04 \<or> op_of w = 0x05 \<or> op_of w = 0x06 \<or> op_of w = 0x07 \<longrightarrow>
      decode_instruction w pc =
        \<lparr>type = ''branch'',
         args = [PStr (if op_of w = 0x04 then ''BEQ'' else if op_of w = 0x05 then ''BNE''
                       else if op_of w = 0x06 then ''BLEZ'' else ''BGTZ''),
                 PInt (rs_of w),
                 (if op_of w = 0x04 \<or> op_of w = 0x05 then PInt (rt_of w) else PNone),
                 PInt (pc + 4 + push_bit 2 (sign_extend_16 (imm_of w)))]\<rparr> \<and>
      imm_of w = take_bit 16 w) \<and>
   op_of 0x10220004 = 0x04 \<and> rs_of 0x10220004 = 1 \<and> rt_of 0x10220004 = 2 \<and>
   imm_of 0x10220004 = 4 \<and>
   decode_instruction 0x10220004 0x1000 =
     \<lparr>type = ''branch'', args = [PStr ''BEQ'', PInt 1, PInt 2, PInt 0x1014]\<rparr>"
proof (intro conjI impI)
  assume "op_of w = 0x04 \<or> op_of w = 0x05 \<or> op_of w = 0x06 \<or> op_of w = 0x07"
  then show "decode_instruction w pc =
      \<lparr>type = ''branch'',
       args = [PStr (if op_of w = 0x04 then ''BEQ'' else if op_of w = 0x05 then ''BNE''
                     else if op_of w = 0x06 then ''BLEZ'' else ''BGTZ''),
               PInt (rs_of w),
               (if op_of w = 0x04 \<or> op_of w = 0x05 then PInt (rt_of w) else PNone),
               PInt (pc + 4 + push_bit 2 (sign_extend_16 (imm_of w)))]\<rparr>"
    by (simp only: decode_branch imm_signed_of_eq)
next
  show "imm_of w = take_bit 16 w"
    by (rule imm_of_bits)
next
  show "decode_instruction 0x10220004 0x1000 =
     \<lparr>type = ''branch'', args = [PStr ''BEQ'', PInt 1, PInt 2, PInt 0x1014]\<rparr>"
    by (simp add: decode_instruction_def)
qed (simp_all add: field_defs)

theorem branch_target_addr_witness:
  "op_of 0x1421FFFF = 0x05 \<and>
   decode_instruction 0x1421FFFF 0x2000 =
     \<lparr>type = ''branch'', args = [PStr ''BNE'', PInt 1, PInt 1, PInt 0x2000]\<rparr>"
proof -
  have "sign_extend_16 0xFFFF = - 1"
    by (simp add: sign_extend_16_def)
  with branch_target_addr [of "0x1421FFFF" "0x2000"] show ?thesis
    by (simp add: field_defs push_bit_eq_mult)
qed

subsection \<open>C5: the no-operation special case\<close>

text \<open>
  Claim C5. For every \<open>pc\<close>, the word \<open>0x00000000\<close> decodes to the no-operation
  category with an empty payload, not to a shift. A register-form word with \<^verbatim>\<open>funct\<close>
  0 decodes to no-operation exactly when \<^verbatim>\<open>rs\<close>, \<^verbatim>\<open>rt\<close>, \<^verbatim>\<open>rd\<close> and
  \<^verbatim>\<open>shamt\<close> are all zero, and to the shift \<^verbatim>\<open>SLL\<close> otherwise.
\<close>

theorem nop_special_case:
  "decode_instruction 0 pc = \<lparr>type = ''nop'', args = []\<rparr> \<and>
   type (decode_instruction 0 pc) \<noteq> ''shift'' \<and>
   (op_of w = 0 \<and> funct_of w = 0 \<longrightarrow>
      (decode_instruction w pc = \<lparr>type = ''nop'', args = []\<rparr> \<longleftrightarrow>
         rs_of w = 0 \<and> rt_of w = 0 \<and> rd_of w = 0 \<and> shamt_of w = 0) \<and>
      (decode_instruction w pc =
         \<lparr>type = ''shift'',
          args = [PStr ''SLL'', PInt (rd_of w), PInt (rt_of w), PInt (shamt_of w)]\<rparr> \<longleftrightarrow>
         \<not> (rs_of w = 0 \<and> rt_of w = 0 \<and> rd_of w = 0 \<and> shamt_of w = 0)))"
proof (intro conjI impI)
  show "decode_instruction 0 pc = \<lparr>type = ''nop'', args = []\<rparr>"
    by (simp add: decode_instruction_def)
  then show "type (decode_instruction 0 pc) \<noteq> ''shift''"
    by simp
next
  assume "op_of w = 0 \<and> funct_of w = 0"
  then show "decode_instruction w pc = \<lparr>type = ''nop'', args = []\<rparr> \<longleftrightarrow>
      rs_of w = 0 \<and> rt_of w = 0 \<and> rd_of w = 0 \<and> shamt_of w = 0"
    by (simp add: decode_instruction_def Let_def field_defs)
next
  assume "op_of w = 0 \<and> funct_of w = 0"
  then show "decode_instruction w pc =
      \<lparr>type = ''shift'',
       args = [PStr ''SLL'', PInt (rd_of w), PInt (rt_of w), PInt (shamt_of w)]\<rparr> \<longleftrightarrow>
      \<not> (rs_of w = 0 \<and> rt_of w = 0 \<and> rd_of w = 0 \<and> shamt_of w = 0)"
    by (simp add: decode_instruction_def Let_def field_defs)
qed

text \<open>At \<open>0x00021080\<close>, which is \<^verbatim>\<open>SLL\<close> of register 2 by 2 into register 2.\<close>

theorem nop_special_case_witness:
  "op_of 0x00021080 = 0 \<and> funct_of 0x00021080 = 0 \<and>
   decode_instruction 0x00021080 0 =
     \<lparr>type = ''shift'', args = [PStr ''SLL'', PInt 2, PInt 2, PInt 2]\<rparr> \<and>
   decode_instruction 0 0x1000 = \<lparr>type = ''nop'', args = []\<rparr>"
  using nop_special_case [of "0x1000" "0x00021080"] nop_special_case [of 0 "0x00021080"]
  by (simp add: field_defs)

subsection \<open>C6: the constant of SLTIU is sign-extended\<close>

text \<open>
  Claim C6. For every word whose primary opcode is \<open>0x0B\<close> (\<^verbatim>\<open>SLTIU\<close>) and every
  \<open>pc\<close>, the constant of the immediate-arithmetic payload is the sign-extended 16-bit
  immediate: the immediate minus \<open>0x10000\<close> when its bit 15 is set, which then differs from
  the zero-extended immediate.
\<close>

theorem sltiu_constant:
  "op_of w = 0x0B \<Longrightarrow>
    decode_instruction w pc =
      \<lparr>type = ''imm'',
       args = [PStr ''SLTU'', PInt (rt_of w), PInt (rs_of w),
               PInt (sign_extend_16 (imm_of w))]\<rparr> \<and>
    sign_extend_16 (imm_of w) =
      (if bit (imm_of w) 15 then imm_of w - 0x10000 else imm_of w) \<and>
    (bit (imm_of w) 15 \<longrightarrow> sign_extend_16 (imm_of w) \<noteq> imm_of w)"
  using sign_extend_16_bit [of w]
  by (simp add: decode_sltiu imm_signed_of_eq)

text \<open>At \<open>0x2C22FFFF\<close>, \<^verbatim>\<open>SLTIU\<close> with the immediate \<open>0xFFFF\<close>: the constant is \<open>-1\<close>.\<close>

theorem sltiu_constant_witness:
  "op_of 0x2C22FFFF = 0x0B \<and> bit (imm_of 0x2C22FFFF) 15 \<and>
   decode_instruction 0x2C22FFFF 0 =
     \<lparr>type = ''imm'', args = [PStr ''SLTU'', PInt 2, PInt 1, PInt (- 1)]\<rparr>"
proof -
  have "bit (0xFFFF :: int) 15"
    by (simp add: bit_iff_odd)
  with sltiu_constant [of "0x2C22FFFF" 0] show ?thesis
    by (simp add: field_defs)
qed

subsection \<open>C7: ADD and ADDU collapse\<close>

text \<open>
  Claim C7. For every \<open>pc\<close>, a register-form word with \<^verbatim>\<open>funct\<close> \<open>0x20\<close> and a
  register-form word with \<^verbatim>\<open>funct\<close> \<open>0x21\<close> that have the same \<^verbatim>\<open>rd\<close>,
  \<^verbatim>\<open>rs\<close> and \<^verbatim>\<open>rt\<close> fields decode to equal Decoded Instructions, the arithmetic
  payload \<^verbatim>\<open>ADD\<close> of these registers.
\<close>

theorem add_collapse:
  assumes "op_of w1 = 0" and "funct_of w1 = 0x20"
    and "op_of w2 = 0" and "funct_of w2 = 0x21"
    and "rd_of w1 = rd_of w2" and "rs_of w1 = rs_of w2" and "rt_of w1 = rt_of w2"
  shows "decode_instruction w1 pc = decode_instruction w2 pc \<and>
    decode_instruction w1 pc =
      \<lparr>type = ''arith'',
       args = [PStr ''ADD'', PInt (rd_of w1), PInt (rs_of w1), PInt (rt_of w1)]\<rparr>"
proof -
  from assms(1,2) have "decode_instruction w1 pc =
      \<lparr>type = ''arith'',
       args = [PStr ''ADD'', PInt (rd_of w1), PInt (rs_of w1), PInt (rt_of w1)]\<rparr>"
    by (simp add: decode_instruction_def Let_def field_defs)
  moreover from assms(3,4) have "decode_instruction w2 pc =
      \<lparr>type = ''arith'',
       args = [PStr ''ADD'', PInt (rd_of w2), PInt (rs_of w2), PInt (rt_of w2)]\<rparr>"
    by (simp add: decode_instruction_def Let_def field_defs)
  ultimately show ?thesis
    using assms(5-7) by simp
qed

text \<open>
  At \<open>0x00221820\<close> and \<open>0x00221821\<close>: \<^verbatim>\<open>ADD\<close> and \<^verbatim>\<open>ADDU\<close> of registers 1 and 2
  into register 3.
\<close>

theorem add_collapse_witness:
  "op_of 0x00221820 = 0 \<and> funct_of 0x00221820 = 0x20 \<and>
   op_of 0x00221821 = 0 \<and> funct_of 0x00221821 = 0x21 \<and>
   rd_of 0x00221820 = rd_of 0x00221821 \<and> rs_of 0x00221820 = rs_of 0x00221821 \<and>
   rt_of 0x00221820 = rt_of 0x00221821 \<and>
   decode_instruction 0x00221820 0x1000 = decode_instruction 0x00221821 0x1000 \<and>
   decode_instruction 0x00221820 0x1000 =
     \<lparr>type = ''arith'', args = [PStr ''ADD'', PInt 3, PInt 1, PInt 2]\<rparr>"
proof -
  have fields: "op_of 0x00221820 = 0" "funct_of 0x00221820 = 0x20"
    "op_of 0x00221821 = 0" "funct_of 0x00221821 = 0x21"
    "rd_of 0x00221820 = rd_of 0x00221821" "rs_of 0x00221820 = rs_of 0x00221821"
    "rt_of 0x00221820 = rt_of 0x00221821"
    by (simp_all add: field_defs)
  from add_collapse [OF fields, of "0x1000"] fields show ?thesis
    by (auto simp add: field_defs)
qed

subsection \<open>C8: the eight load and store opcodes\<close>

text \<open>
  Claim C8, as amended. Each of the eight load and store opcodes \<open>0x20\<close> (\<^verbatim>\<open>LB\<close>), \<open>0x21\<close>
  (\<^verbatim>\<open>LH\<close>), \<open>0x23\<close> (\<^verbatim>\<open>LW\<close>), \<open>0x24\<close> (\<^verbatim>\<open>LBU\<close>), \<open>0x25\<close>
  (\<^verbatim>\<open>LHU\<close>), \<open>0x28\<close> (\<^verbatim>\<open>SB\<close>), \<open>0x29\<close> (\<^verbatim>\<open>SH\<close>) and \<open>0x2B\<close>
  (\<^verbatim>\<open>SW\<close>) decodes to the load or the store category with the tag of its width and,
  for a load of a byte or a halfword, of its signedness. The category together with the tag
  tells the eight opcodes apart: two such words decode to the same category and tag exactly
  when their opcodes are equal. The tag alone tells them apart but for one pair: \<^verbatim>\<open>LW\<close>
  and \<^verbatim>\<open>SW\<close> carry the same tag \<^verbatim>\<open>WORD\<close>, and two such words carry the same
  tag exactly when their opcodes are equal or are those of \<^verbatim>\<open>LW\<close> and \<^verbatim>\<open>SW\<close>.
  The tag of a store is one of the three widths \<^verbatim>\<open>BYTE\<close>, \<^verbatim>\<open>HALF\<close>,
  \<^verbatim>\<open>WORD\<close>, with no signedness.
\<close>

theorem load_store_tags:
  "(op_of w \<in> set load_store_opcodes \<longrightarrow>
      decode_instruction w pc =
        \<lparr>type = (if op_of w = 0x28 \<or> op_of w = 0x29 \<or> op_of w = 0x2B then ''store''
                 else ''load''),
         args = [PStr (if op_of w = 0x20 then ''BYTE_S'' else if op_of w = 0x24 then ''BYTE_U''
                       else if op_of w = 0x21 then ''HALF_S''
                       else if op_of w = 0x25 then ''HALF_U''
                       else if op_of w = 0x23 then ''WORD''
                       else if op_of w = 0x28 then ''BYTE''
                       else if op_of w = 0x29 then ''HALF'' else ''WORD''),
                 PInt (rt_of w), PInt (rs_of w), PInt (sign_extend_16 (imm_of w))]\<rparr>) \<and>
   (op_of w1 \<in> set load_store_opcodes \<and> op_of w2 \<in> set load_store_opcodes \<longrightarrow>
      (type (decode_instruction w1 pc1) = type (decode_instruction w2 pc2) \<and>
       hd (args (decode_instruction w1 pc1)) = hd (args (decode_instruction w2 pc2))
       \<longleftrightarrow> op_of w1 = op_of w2) \<and>
      (hd (args (decode_instruction w1 pc1)) = hd (args (decode_instruction w2 pc2))
       \<longleftrightarrow> op_of w1 = op_of w2 \<or> (op_of w1 = 0x23 \<and> op_of w2 = 0x2B) \<or>
           (op_of w1 = 0x2B \<and> op_of w2 = 0x23))) \<and>
   (type (decode_instruction w pc) = ''store'' \<longrightarrow>
      hd (args (decode_instruction w pc)) \<in> {PStr ''BYTE'', PStr ''HALF'', PStr ''WORD''})"
proof (intro conjI impI)
  assume "op_of w \<in> set load_store_opcodes"
  then show "decode_instruction w pc =
      \<lparr>type = (if op_of w = 0x28 \<or> op_of w = 0x29 \<or> op_of w = 0x2B then ''store''
               else ''load''),
       args = [PStr (if op_of w = 0x20 then ''BYTE_S'' else if op_of w = 0x24 then ''BYTE_U''
                     else if op_of w = 0x21 then ''HALF_S''
                     else if op_of w = 0x25 then ''HALF_U''
                     else if op_of w = 0x23 then ''WORD''
                     else if op_of w = 0x28 then ''BYTE''
                     else if op_of w = 0x29 then ''HALF'' else ''WORD''),
               PInt (rt_of w), PInt (rs_of w), PInt (sign_extend_16 (imm_of w))]\<rparr>"
    by (simp only: decode_load_store imm_signed_of_eq)
next
  assume both: "op_of w1 \<in> set load_store_opcodes \<and> op_of w2 \<in> set load_store_opcodes"
  then have cases1: "op_of w1 = 0x20 \<or> op_of w1 = 0x24 \<or> op_of w1 = 0x21 \<or> op_of w1 = 0x25 \<or>
      op_of w1 = 0x23 \<or> op_of w1 = 0x28 \<or> op_of w1 = 0x29 \<or> op_of w1 = 0x2B"
    and cases2: "op_of w2 = 0x20 \<or> op_of w2 = 0x24 \<or> op_of w2 = 0x21 \<or> op_of w2 = 0x25 \<or>
      op_of w2 = 0x23 \<or> op_of w2 = 0x28 \<or> op_of w2 = 0x29 \<or> op_of w2 = 0x2B"
    by (simp_all add: load_store_opcodes_def)
  from both have d1: "decode_instruction w1 pc1 =
      \<lparr>type = (if op_of w1 = 0x28 \<or> op_of w1 = 0x29 \<or> op_of w1 = 0x2B then ''store''
               else ''load''),
       args = [PStr (if op_of w1 = 0x20 then ''BYTE_S'' else if op_of w1 = 0x24 then ''BYTE_U''
                     else if op_of w1 = 0x21 then ''HALF_S''
                     else if op_of w1 = 0x25 then ''HALF_U''
                     else if op_of w1 = 0x23 then ''WORD''
                     else if op_of w1 = 0x28 then ''BYTE''
                     else if op_of w1 = 0x29 then ''HALF'' else ''WORD''),
               PInt (rt_of w1), PInt (rs_of w1), PInt (imm_signed_of w1)]\<rparr>"
    by (simp only: decode_load_store)
  from both have d2: "decode_instruction w2 pc2 =
      \<lparr>type = (if op_of w2 = 0x28 \<or> op_of w2 = 0x29 \<or> op_of w2 = 0x2B then ''store''
               else ''load''),
       args = [PStr (if op_of w2 = 0x20 then ''BYTE_S'' else if op_of w2 = 0x24 then ''BYTE_U''
                     else if op_of w2 = 0x21 then ''HALF_S''
                     else if op_of w2 = 0x25 then ''HALF_U''
                     else if op_of w2 = 0x23 then ''WORD''
                     else if op_of w2 = 0x28 then ''BYTE''
                     else if op_of w2 = 0x29 then ''HALF'' else ''WORD''),
               PInt (rt_of w2), PInt (rs_of w2), PInt (imm_signed_of w2)]\<rparr>"
    by (simp only: decode_load_store)
  from cases1 cases2
  have pair: "type (decode_instruction w1 pc1) = type (decode_instruction w2 pc2) \<and>
      hd (args (decode_instruction w1 pc1)) = hd (args (decode_instruction w2 pc2))
      \<longleftrightarrow> op_of w1 = op_of w2"
    unfolding d1 d2 by (elim disjE) simp_all
  from cases1 cases2
  have tag: "hd (args (decode_instruction w1 pc1)) = hd (args (decode_instruction w2 pc2))
      \<longleftrightarrow> op_of w1 = op_of w2 \<or> (op_of w1 = 0x23 \<and> op_of w2 = 0x2B) \<or>
          (op_of w1 = 0x2B \<and> op_of w2 = 0x23)"
    unfolding d1 d2 by (elim disjE) simp_all
  from pair
  show "type (decode_instruction w1 pc1) = type (decode_instruction w2 pc2) \<and>
      hd (args (decode_instruction w1 pc1)) = hd (args (decode_instruction w2 pc2))
      \<longleftrightarrow> op_of w1 = op_of w2" .
  from tag
  show "hd (args (decode_instruction w1 pc1)) = hd (args (decode_instruction w2 pc2))
      \<longleftrightarrow> op_of w1 = op_of w2 \<or> (op_of w1 = 0x23 \<and> op_of w2 = 0x2B) \<or>
          (op_of w1 = 0x2B \<and> op_of w2 = 0x23)" .
next
  assume "type (decode_instruction w pc) = ''store''"
  then show "hd (args (decode_instruction w pc)) \<in> {PStr ''BYTE'', PStr ''HALF'', PStr ''WORD''}"
    by (rule decode_store_tag)
qed

text \<open>
  At \<open>0x8C220004\<close> (\<^verbatim>\<open>LW\<close>) and \<open>0xAC220004\<close> (\<^verbatim>\<open>SW\<close>): both carry the tag
  \<^verbatim>\<open>WORD\<close> and differ in the category.
\<close>

theorem load_store_tags_witness:
  "op_of 0x8C220004 \<in> set load_store_opcodes \<and> op_of 0xAC220004 \<in> set load_store_opcodes \<and>
   decode_instruction 0x8C220004 0 =
     \<lparr>type = ''load'', args = [PStr ''WORD'', PInt 2, PInt 1, PInt 4]\<rparr> \<and>
   decode_instruction 0xAC220004 0 =
     \<lparr>type = ''store'', args = [PStr ''WORD'', PInt 2, PInt 1, PInt 4]\<rparr> \<and>
   hd (args (decode_instruction 0xAC220004 0)) \<in> {PStr ''BYTE'', PStr ''HALF'', PStr ''WORD''}"
proof -
  have "sign_extend_16 4 = 4"
    by (simp add: sign_extend_16_def)
  with load_store_tags [of "0x8C220004" 0] load_store_tags [of "0xAC220004" 0]
  show ?thesis
    by (simp add: field_defs load_store_opcodes_def)
qed

text \<open>
  Claim C8 as the specification states it, with the tag of each opcode distinct from the
  tags of the other seven, fails at \<open>0x8C220004\<close> (\<^verbatim>\<open>LW\<close>) and \<open>0xAC220004\<close>
  (\<^verbatim>\<open>SW\<close>): the opcodes differ and the tags are equal.
\<close>

theorem load_store_tag_shared:
  "op_of 0x8C220004 = 0x23 \<and> op_of 0xAC220004 = 0x2B \<and>
   hd (args (decode_instruction 0x8C220004 0)) = PStr ''WORD'' \<and>
   hd (args (decode_instruction 0xAC220004 0)) = PStr ''WORD'' \<and>
   hd (args (decode_instruction 0x8C220004 0)) = hd (args (decode_instruction 0xAC220004 0))"
  by (simp add: decode_instruction_def op_of_def)

subsection \<open>C9: the program counter matters to branches and jumps only\<close>

text \<open>
  Claim C9. For every word whose primary opcode is none of \<open>0x02\<close>, \<open>0x03\<close>, \<open>0x04\<close>,
  \<open>0x05\<close>, \<open>0x06\<close>, \<open>0x07\<close> and for all addresses \<open>pc1\<close> and \<open>pc2\<close>, decoding at \<open>pc1\<close>
  and decoding at \<open>pc2\<close> give equal results. For a jump or a branch the program counter
  changes the target address only: the category and every other operand (all but the first
  of a jump, all but the last of a branch) are the same at both addresses.
\<close>

theorem pc_independence:
  "(op_of w \<notin> {0x02, 0x03, 0x04, 0x05, 0x06, 0x07} \<longrightarrow>
      decode_instruction w pc1 = decode_instruction w pc2) \<and>
   type (decode_instruction w pc1) = type (decode_instruction w pc2) \<and>
   (op_of w = 0x02 \<or> op_of w = 0x03 \<longrightarrow>
      tl (args (decode_instruction w pc1)) = tl (args (decode_instruction w pc2))) \<and>
   (op_of w = 0x04 \<or> op_of w = 0x05 \<or> op_of w = 0x06 \<or> op_of w = 0x07 \<longrightarrow>
      butlast (args (decode_instruction w pc1)) = butlast (args (decode_instruction w pc2)))"
proof -
  have other: "decode_instruction w pc1 = decode_instruction w pc2"
    if "op_of w \<notin> {0x02, 0x03, 0x04, 0x05, 0x06, 0x07}"
    using that by (simp add: decode_instruction_def Let_def op_of_def)
  have jump: "type (decode_instruction w pc1) = type (decode_instruction w pc2) \<and>
      tl (args (decode_instruction w pc1)) = tl (args (decode_instruction w pc2))"
    if "op_of w = 0x02 \<or> op_of w = 0x03"
    using that by (simp add: decode_jump)
  have branch: "type (decode_instruction w pc1) = type (decode_instruction w pc2) \<and>
      butlast (args (decode_instruction w pc1)) = butlast (args (decode_instruction w pc2))"
    if "op_of w = 0x04 \<or> op_of w = 0x05 \<or> op_of w = 0x06 \<or> op_of w = 0x07"
    using that by (simp add: decode_branch)
  have "type (decode_instruction w pc1) = type (decode_instruction w pc2)"
  proof (cases "op_of w \<in> {0x02, 0x03, 0x04, 0x05, 0x06, 0x07}")
    case True
    then consider "op_of w = 0x02 \<or> op_of w = 0x03"
      | "op_of w = 0x04 \<or> op_of w = 0x05 \<or> op_of w = 0x06 \<or> op_of w = 0x07"
      by auto
    then show ?thesis
      using jump branch by cases simp_all
  next
    case False
    then show ?thesis
      using other by simp
  qed
  with other jump branch show ?thesis
    by blast
qed

text \<open>
  At \<open>0x8C220004\<close> (\<^verbatim>\<open>LW\<close>), at \<open>0x0C000010\<close> (\<^verbatim>\<open>JAL\<close>) and at \<open>0x10220004\<close>
  (\<^verbatim>\<open>BEQ\<close>), for the addresses \<open>0\<close> and \<open>0x1000\<close>.
\<close>

theorem pc_independence_witness:
  "op_of 0x8C220004 \<notin> {0x02, 0x03, 0x04, 0x05, 0x06, 0x07} \<and>
   decode_instruction 0x8C220004 0 = decode_instruction 0x8C220004 0x1000 \<and>
   op_of 0x0C000010 = 0x03 \<and>
   tl (args (decode_instruction 0x0C000010 0)) = tl (args (decode_instruction 0x0C000010 0x1000)) \<and>
   op_of 0x10220004 = 0x04 \<and>
   butlast (args (decode_instruction 0x10220004 0)) =
     butlast (args (decode_instruction 0x10220004 0x1000))"
  using pc_independence [of "0x8C220004" 0 "0x1000"] pc_independence [of "0x0C000010" 0 "0x1000"]
    pc_independence [of "0x10220004" 0 "0x1000"]
  by (simp add: op_of_def)

subsection \<open>C10: branch targets are not reduced modulo \<open>2 ^ 32\<close>, jump targets are\<close>

text \<open>
  Claim C10, as amended. The branch target addresses are not reduced modulo \<open>2 ^ 32\<close>: for
  every word whose primary opcode is \<open>0x04\<close>, \<open>0x05\<close>, \<open>0x06\<close> or \<open>0x07\<close> and every
  \<open>pc\<close>, the decoded target is the integer \<open>pc + 4 + (sign_extend_16 immediate << 2)\<close>
  itself, and whenever that integer is negative or at least \<open>2 ^ 32\<close> the decoded target is
  outside the 32-bit range and differs from its residue modulo \<open>2 ^ 32\<close>. The word
  \<open>0x10008000\<close> is \<^verbatim>\<open>BEQ\<close> with the immediate \<open>0x8000\<close>, and decoded at \<open>pc = 0\<close> its
  target is \<open>0 + 4 + ((- 0x8000) << 2) = - 131068\<close>, which is negative. The jump target
  addresses do lie in the 32-bit range: for every word whose primary opcode is \<open>0x02\<close> or
  \<open>0x03\<close> and every \<open>pc\<close>, the decoded target is at least 0 and less than \<open>2 ^ 32\<close>.
\<close>

theorem branch_targets_not_reduced:
  "(op_of w = 0x04 \<or> op_of w = 0x05 \<or> op_of w = 0x06 \<or> op_of w = 0x07 \<longrightarrow>
      type (decode_instruction w pc) = ''branch'' \<and>
      last (args (decode_instruction w pc)) =
        PInt (pc + 4 + push_bit 2 (sign_extend_16 (imm_of w))) \<and>
      (pc + 4 + push_bit 2 (sign_extend_16 (imm_of w)) < 0 \<or>
       2 ^ 32 \<le> pc + 4 + push_bit 2 (sign_extend_16 (imm_of w)) \<longrightarrow>
         last (args (decode_instruction w pc)) \<noteq>
           PInt ((pc + 4 + push_bit 2 (sign_extend_16 (imm_of w))) mod 2 ^ 32))) \<and>
   (op_of w = 0x02 \<or> op_of w = 0x03 \<longrightarrow>
      type (decode_instruction w pc) = ''jump'' \<and>
      hd (args (decode_instruction w pc)) =
        PInt (((pc + 4) AND 0xF0000000) OR push_bit 2 (target_of w)) \<and>
      0 \<le> ((pc + 4) AND 0xF0000000) OR push_bit 2 (target_of w) \<and>
      ((pc + 4) AND 0xF0000000) OR push_bit 2 (target_of w) < 2 ^ 32) \<and>
   op_of 0x10008000 = 0x04 \<and> imm_of 0x10008000 = 0x8000 \<and>
   decode_instruction 0x10008000 0 =
     \<lparr>type = ''branch'', args = [PStr ''BEQ'', PInt 0, PInt 0, PInt (- 131068)]\<rparr> \<and>
   (- 131068 :: int) = 0 + 4 + push_bit 2 (- 0x8000) \<and>
   (- 131068 :: int) < 0 \<and>
   (- 131068 :: int) \<noteq> (- 131068) mod 2 ^ 32"
proof (rule conjI [OF _ conjI])
  show "op_of w = 0x04 \<or> op_of w = 0x05 \<or> op_of w = 0x06 \<or> op_of w = 0x07 \<longrightarrow>
      type (decode_instruction w pc) = ''branch'' \<and>
      last (args (decode_instruction w pc)) =
        PInt (pc + 4 + push_bit 2 (sign_extend_16 (imm_of w))) \<and>
      (pc + 4 + push_bit 2 (sign_extend_16 (imm_of w)) < 0 \<or>
       2 ^ 32 \<le> pc + 4 + push_bit 2 (sign_extend_16 (imm_of w)) \<longrightarrow>
         last (args (decode_instruction w pc)) \<noteq>
           PInt ((pc + 4 + push_bit 2 (sign_extend_16 (imm_of w))) mod 2 ^ 32))"
  proof (intro impI conjI)
    assume branch: "op_of w = 0x04 \<or> op_of w = 0x05 \<or> op_of w = 0x06 \<or> op_of w = 0x07"
    then show "type (decode_instruction w pc) = ''branch''"
      by (simp add: decode_branch)
    from branch show target: "last (args (decode_instruction w pc)) =
        PInt (pc + 4 + push_bit 2 (sign_extend_16 (imm_of w)))"
      by (simp add: decode_branch imm_signed_of_eq)
    assume "pc + 4 + push_bit 2 (sign_extend_16 (imm_of w)) < 0 \<or>
        2 ^ 32 \<le> pc + 4 + push_bit 2 (sign_extend_16 (imm_of w))"
    then have "pc + 4 + push_bit 2 (sign_extend_16 (imm_of w)) \<noteq>
        (pc + 4 + push_bit 2 (sign_extend_16 (imm_of w))) mod 2 ^ 32"
      by (rule outside_range_not_residue)
    with target show "last (args (decode_instruction w pc)) \<noteq>
        PInt ((pc + 4 + push_bit 2 (sign_extend_16 (imm_of w))) mod 2 ^ 32)"
      by (simp only: pyval.inject simp_thms)
  qed
next
  show "op_of w = 0x02 \<or> op_of w = 0x03 \<longrightarrow>
      type (decode_instruction w pc) = ''jump'' \<and>
      hd (args (decode_instruction w pc)) =
        PInt (((pc + 4) AND 0xF0000000) OR push_bit 2 (target_of w)) \<and>
      0 \<le> ((pc + 4) AND 0xF0000000) OR push_bit 2 (target_of w) \<and>
      ((pc + 4) AND 0xF0000000) OR push_bit 2 (target_of w) < 2 ^ 32"
  proof (intro impI conjI)
    assume jump: "op_of w = 0x02 \<or> op_of w = 0x03"
    then show "type (decode_instruction w pc) = ''jump''"
      by (simp add: decode_jump)
    from jump show "hd (args (decode_instruction w pc)) =
        PInt (((pc + 4) AND 0xF0000000) OR push_bit 2 (target_of w))"
      by (simp add: decode_jump)
    show "0 \<le> ((pc + 4) AND 0xF0000000) OR push_bit 2 (target_of w)"
      using jump_addr_bounds [of pc w] by (rule conjunct1)
    show "((pc + 4) AND 0xF0000000) OR push_bit 2 (target_of w) < 2 ^ 32"
      using jump_addr_bounds [of pc w] by (rule conjunct2)
  qed
next
  show "op_of 0x10008000 = 0x04 \<and> imm_of 0x10008000 = 0x8000 \<and>
      decode_instruction 0x10008000 0 =
        \<lparr>type = ''branch'', args = [PStr ''BEQ'', PInt 0, PInt 0, PInt (- 131068)]\<rparr> \<and>
      (- 131068 :: int) = 0 + 4 + push_bit 2 (- 0x8000) \<and>
      (- 131068 :: int) < 0 \<and>
      (- 131068 :: int) \<noteq> (- 131068) mod 2 ^ 32"
    by (simp add: decode_instruction_def field_defs push_bit_eq_mult)
qed

text \<open>
  At \<open>0x10008000\<close> (\<^verbatim>\<open>BEQ\<close>, immediate \<open>0x8000\<close>) decoded at \<open>0\<close>, below the
  range, and at \<open>0x0C000010\<close> (\<^verbatim>\<open>JAL\<close>) decoded at \<open>0xFFFFFFFC\<close>, inside it.
\<close>

theorem branch_targets_not_reduced_witness:
  "op_of 0x10008000 = 0x04 \<and>
   last (args (decode_instruction 0x10008000 0)) = PInt (- 131068) \<and>
   last (args (decode_instruction 0x10008000 0)) \<noteq> PInt ((- 131068) mod 2 ^ 32) \<and>
   op_of 0x0C000010 = 0x03 \<and>
   hd (args (decode_instruction 0x0C000010 0xFFFFFFFC)) = PInt 0x40"
proof -
  have beq: "op_of 0x10008000 = 0x04"
    by (simp add: op_of_def)
  then have branch: "op_of 0x10008000 = 0x04 \<or> op_of 0x10008000 = 0x05 \<or>
      op_of 0x10008000 = 0x06 \<or> op_of 0x10008000 = 0x07"
    by (rule disjI1)
  have target: "0 + 4 + push_bit 2 (sign_extend_16 (imm_of 0x10008000)) = (- 131068 :: int)"
    using sign_extend_16_bit [of "0x10008000"]
    by (simp add: imm_of_def bit_iff_odd push_bit_eq_mult)
  note at_beq = branch_targets_not_reduced [of "0x10008000" 0, THEN conjunct1, THEN mp,
      OF branch]
  from at_beq [THEN conjunct2, THEN conjunct1]
  have below: "last (args (decode_instruction 0x10008000 0)) = PInt (- 131068)"
    unfolding target .
  from at_beq [THEN conjunct2, THEN conjunct2]
  have differs: "last (args (decode_instruction 0x10008000 0)) \<noteq> PInt ((- 131068) mod 2 ^ 32)"
    unfolding target by simp
  have jal: "op_of 0x0C000010 = 0x03"
    by (simp add: op_of_def)
  then have jump: "op_of 0x0C000010 = 0x02 \<or> op_of 0x0C000010 = 0x03"
    by (rule disjI2)
  from branch_targets_not_reduced [of "0x0C000010" "0xFFFFFFFC", THEN conjunct2,
      THEN conjunct1, THEN mp, OF jump, THEN conjunct2, THEN conjunct1]
  have inside: "hd (args (decode_instruction 0x0C000010 0xFFFFFFFC)) = PInt 0x40"
    by (simp add: target_of_def)
  from beq below differs jal inside show ?thesis
    by (intro conjI)
qed

text \<open>
  Claim C10 as stated, with the jump target addresses not reduced modulo \<open>2 ^ 32\<close>, fails at
  the word \<open>0x08000010\<close> (\<^verbatim>\<open>J\<close> with target field \<open>0x10\<close>) decoded at
  \<open>pc = 0xFFFFFFFC\<close>: the next address \<open>pc + 4\<close> is \<open>2 ^ 32\<close>, outside the 32-bit range,
  and the decoded target is \<open>0x40\<close>, the address in segment 0 that the next address reduced
  modulo \<open>2 ^ 32\<close> gives; it is inside the 32-bit range and equal to its own residue.
\<close>

theorem jump_target_reduced_example:
  "op_of 0x08000010 = 0x02 \<and> (0xFFFFFFFC + 4 :: int) = 2 ^ 32 \<and>
   decode_instruction 0x08000010 0xFFFFFFFC =
     \<lparr>type = ''jump'', args = [PInt 0x40, PBool False]\<rparr> \<and>
   (0x40 :: int) = (((0xFFFFFFFC + 4) mod 2 ^ 32) AND 0xF0000000) OR push_bit 2 0x10 \<and>
   (0 :: int) \<le> 0x40 \<and> (0x40 :: int) < 2 ^ 32 \<and> (0x40 :: int) = 0x40 mod 2 ^ 32"
  by (simp add: decode_instruction_def op_of_def)

end
